theory Spec2Isabelle
  imports Main
begin

section \<open>Help page (frontend/src/components/Help.js)\<close>

subsection \<open>Strings\<close>

text \<open>
  JavaScript strings are modelled as \<^typ>\<open>string\<close>. All topic texts of the Help page are
  ASCII. \<open>toLowerCase\<close> maps the ASCII capitals to their small letters and leaves every
  other character alone; \<open>str_includes\<close> is the substring test of \<open>String.prototype.includes\<close>.
\<close>

definition lower_char :: "char \<Rightarrow> char" where
  "lower_char c =
     (let n = (of_char c :: nat) in if 65 \<le> n \<and> n \<le> 90 then char_of (n + 32) else c)"

definition toLowerCase :: "string \<Rightarrow> string" where
  "toLowerCase s = map lower_char s"

fun starts_with :: "string \<Rightarrow> string \<Rightarrow> bool" where
  "starts_with s [] = True"
| "starts_with [] (c # q) = False"
| "starts_with (d # s) (c # q) = (d = c \<and> starts_with s q)"

fun str_includes :: "string \<Rightarrow> string \<Rightarrow> bool" where
  "str_includes [] q = (q = [])"
| "str_includes (d # s) q = (starts_with (d # s) q \<or> str_includes s q)"

subsection \<open>Sections and topics\<close>

record help_section =
  key :: string
  title :: string
  summary :: string
  items :: "string list"

definition sections :: "help_section list" where
  \<open>sections =
    [ \<lparr> key = ''getting-started'', title = ''Getting Started'',
        summary = ''Overview of how to use the platform and begin conversations with MAYA.'',
        items =
          [ ''Create a new chat using the "New Chat" button'',
            ''Type your question or use voice input'',
            ''Attach files and images to provide context'',
            ''Use the sidebar to access saved conversations'' ] \<rparr>,
      \<lparr> key = ''account-profile'', title = ''Account & Profile'',
        summary = ''Login, registration, password recovery, and profile management.'',
        items =
          [ ''How to register and verify your account'',
            ''Reset your password from the login screen'',
            ''Update profile details and avatar'',
            ''Manage connected apps and API keys'' ] \<rparr>,
      \<lparr> key = ''features-dashboard'', title = ''Features & Dashboard'',
        summary = ''Guides on different modules, tools, and dashboard workflows.'',
        items =
          [ ''Understanding the Dashboard layout and widgets'',
            ''Using Tasks, Memory, and Suggestions features'',
            ''Exporting or saving conversation transcripts'',
            ''Keyboard shortcuts and productivity tips'' ] \<rparr>,
      \<lparr> key = ''troubleshooting'', title = ''Troubleshooting'',
        summary = ''Common errors and step-by-step fixes for connectivity or UI issues.'',
        items =
          [ ''If messages fail to send, check network and retry'',
            ''Clear local cache or refresh to recover from UI glitches'',
            ''Check server status or contact support for prolonged outages'' ] \<rparr>,
      \<lparr> key = ''tips'', title = ''Tips & Best Practices'',
        summary = ''Short tips for better results and privacy-aware usage.'',
        items =
          [ ''Be specific with prompts to get better responses'',
            ''Use the edit feature to refine inputs'',
            ''Manage memory settings to control what is retained'' ] \<rparr> ]\<close>

text \<open>
  \<open>Array.from(new Set(t))\<close>: a set keeps the first occurrence of every element, in
  insertion order.
\<close>

fun set_add_all :: "'a list \<Rightarrow> 'a list \<Rightarrow> 'a list" where
  "set_add_all seen [] = seen"
| "set_add_all seen (x # xs) = set_add_all (if x \<in> set seen then seen else seen @ [x]) xs"

definition topics_of :: "help_section list \<Rightarrow> string list" where
  "topics_of secs = set_add_all [] (concat (map (\<lambda>s. title s # items s) secs))"

definition topics :: "string list" where
  "topics = topics_of sections"

definition filtered_from :: "string list \<Rightarrow> string \<Rightarrow> string list" where
  "filtered_from ts query =
     (if query = [] then []
      else let q = toLowerCase query
           in take 6 (filter (\<lambda>t. str_includes (toLowerCase t) q) ts))"

definition filtered :: "string \<Rightarrow> string list" where
  "filtered query = filtered_from topics query"

subsection \<open>Contact form\<close>

text \<open>
  The handler's observable actions, in program order. \<open>SetTimeout d acts\<close> registers a timer
  that runs \<open>acts\<close> once \<open>d\<close> milliseconds have passed; \<open>Fetch\<close> stands for any request to a
  server (the handler issues none).
\<close>

record contact_form =
  name :: string
  email :: string
  message :: string

datatype action =
    PreventDefault
  | ConsoleLog string contact_form
  | SetSubmitted bool
  | SetTimeout nat "action list"
  | Fetch string

definition handleContactSubmit :: "contact_form \<Rightarrow> action list" where
  "handleContactSubmit contact =
     [ PreventDefault,
       ConsoleLog ''Contact submission'' contact,
       SetSubmitted True,
       SetTimeout 4000 [SetSubmitted False] ]"

text \<open>
  The part of the page the handler touches: the \<open>submitted\<close> flag, the console, the pending
  timers (remaining delay and callback) and the requests sent. \<open>perform\<close> runs a list of
  actions; \<open>advance d\<close> lets \<open>d\<close> milliseconds pass, firing every timer that becomes due.
\<close>

record page =
  submitted :: bool
  console :: "(string \<times> contact_form) list"
  timers :: "(nat \<times> action list) list"
  requests :: "string list"

fun perform :: "action list \<Rightarrow> page \<Rightarrow> page" where
  "perform [] p = p"
| "perform (PreventDefault # as) p = perform as p"
| "perform (ConsoleLog l c # as) p = perform as (p\<lparr>console := console p @ [(l, c)]\<rparr>)"
| "perform (SetSubmitted b # as) p = perform as (p\<lparr>submitted := b\<rparr>)"
| "perform (SetTimeout d cb # as) p = perform as (p\<lparr>timers := timers p @ [(d, cb)]\<rparr>)"
| "perform (Fetch u # as) p = perform as (p\<lparr>requests := requests p @ [u]\<rparr>)"

definition advance :: "nat \<Rightarrow> page \<Rightarrow> page" where
  "advance d p =
     perform (concat (map snd (sort_key fst (filter (\<lambda>t. fst t \<le> d) (timers p)))))
       (p\<lparr>timers := map (\<lambda>t. (fst t - d, snd t)) (filter (\<lambda>t. d < fst t) (timers p))\<rparr>)"

definition submit_contact :: "contact_form \<Rightarrow> page \<Rightarrow> page" where
  "submit_contact c p = perform (handleContactSubmit c) p"

definition blank_page :: page where
  "blank_page = \<lparr>submitted = False, console = [], timers = [], requests = []\<rparr>"

definition sample_contact :: contact_form where
  "sample_contact = \<lparr>name = ''Asha'', email = ''asha@example.com'', message = ''Hello''\<rparr>"

section \<open>Settings page\<close>

subsection \<open>Translation tables\<close>

text \<open>
  Texts outside ASCII are written by their Unicode code points; \<open>utf8\<close> gives the string
  (its UTF-8 bytes).
\<close>

definition utf8_char :: "nat \<Rightarrow> string" where
  "utf8_char n =
     (if n < 128 then [char_of n]
      else if n < 2048 then [char_of (192 + n div 64), char_of (128 + n mod 64)]
      else if n < 65536 then
        [char_of (224 + n div 4096), char_of (128 + n div 64 mod 64), char_of (128 + n mod 64)]
      else
        [char_of (240 + n div 262144), char_of (128 + n div 4096 mod 64),
         char_of (128 + n div 64 mod 64), char_of (128 + n mod 64)])"

definition utf8 :: "nat list \<Rightarrow> string" where
  "utf8 cps = concat (map utf8_char cps)"

definition en_table :: "(string \<times> string) list" where
  \<open>en_table =
    [
      (''settings'', ''Settings''),
      (''accountSettings'', ''Account Settings''),
      (''profile'', ''Profile''),
      (''uploadPhoto'', ''Upload photo''),
      (''username'', ''Username''),
      (''email'', ''Email''),
      (''cancel'', ''Cancel''),
      (''save'', ''Save''),
      (''preferences'', ''Preferences''),
      (''theme'', ''Theme''),
      (''fontSize'', ''Font size''),
      (''language'', ''Language''),
      (''personalization'', ''Personalization''),
      (''enableCustomization'', ''Enable customization''),
      (''assistantPersonality'', ''Assistant personality''),
      (''customInstructions'', ''Custom instructions''),
      (''aboutYou'', ''About you''),
      (''nickname'', ''Nickname''),
      (''occupation'', ''Occupation''),
      (''savePersonalization'', ''Save personalization''),
      (''notifications'', ''Notifications''),
      (''emailNotifications'', ''Email notifications''),
      (''systemNotifications'', ''System notifications''),
      (''soundAlerts'', ''Sound alerts''),
      (''weeklySummary'', ''Weekly summary''),
      (''privacy'', ''Privacy & Security''),
      (''twoFA'', ''Two-factor authentication''),
      (''activeSessions'', ''Active sessions''),
      (''requestData'', ''Request data download''),
      (''clearHistory'', ''Clear chat history''),
      (''aboutSupport'', ''About & Support''),
      (''contactSupport'', ''Contact support''),
      (''terms'', ''Terms of Service''),
      (''privacyPolicy'', ''Privacy Policy''),
      (''reportBug'', ''Report a bug'') ]\<close>

definition te_table :: "(string \<times> string) list" where
  \<open>te_table =
    [
      (''settings'', utf8
          [0x0C05, 0x0C2E, 0x0C30, 0x0C3F, 0x0C15, 0x0C32, 0x0C41]),
      (''accountSettings'', utf8
          [0x0C16, 0x0C3E, 0x0C24, 0x0C3E, 0x0020, 0x0C38, 0x0C46, 0x0C1F, 0x0C4D, 0x0C1F,
           0x0C3F, 0x0C02, 0x0C17, 0x0C4D, 0x200C, 0x0C32, 0x0C41]),
      (''profile'', utf8
          [0x0C2A, 0x0C4D, 0x0C30, 0x0C4A, 0x0C2B, 0x0C48, 0x0C32, 0x0C4D]),
      (''uploadPhoto'', utf8
          [0x0C2B, 0x0C4A, 0x0C1F, 0x0C4B, 0x0020, 0x0C05, 0x0C2A, 0x0C4D, 0x0C32, 0x0C4B,
           0x0C21, 0x0C4D, 0x0020, 0x0C1A, 0x0C47, 0x0C2F, 0x0C02, 0x0C21, 0x0C3F]),
      (''username'', utf8
          [0x0C35, 0x0C3E, 0x0C21, 0x0C41, 0x0C15, 0x0C30, 0x0C3F, 0x0C2A, 0x0C47, 0x0C30,
           0x0C41]),
      (''email'', utf8
          [0x0C07, 0x0C2E, 0x0C46, 0x0C2F, 0x0C3F, 0x0C32, 0x0C4D]),
      (''cancel'', utf8
          [0x0C30, 0x0C26, 0x0C4D, 0x0C26, 0x0C41, 0x0020, 0x0C1A, 0x0C47, 0x0C2F, 0x0C3F]),
      (''save'', utf8
          [0x0C38, 0x0C47, 0x0C35, 0x0C4D, 0x0020, 0x0C1A, 0x0C47, 0x0C2F, 0x0C3F]),
      (''preferences'', utf8
          [0x0C05, 0x0C2D, 0x0C3F, 0x0C30, 0x0C41, 0x0C1A, 0x0C41, 0x0C32, 0x0C41]),
      (''theme'', utf8
          [0x0C25, 0x0C40, 0x0C2E, 0x0C4D]),
      (''fontSize'', utf8
          [0x0C2B, 0x0C3E, 0x0C02, 0x0C1F, 0x0C4D, 0x0020, 0x0C2A, 0x0C30, 0x0C3F, 0x0C2E,
           0x0C3E, 0x0C23, 0x0C02]),
      (''language'', utf8
          [0x0C2D, 0x0C3E, 0x0C37]),
      (''personalization'', utf8
          [0x0C35, 0x0C4D, 0x0C2F, 0x0C15, 0x0C4D, 0x0C24, 0x0C3F, 0x0C17, 0x0C24, 0x0C40,
           0x0C15, 0x0C30, 0x0C23]),
      (''enableCustomization'', utf8
          [0x0C05, 0x0C28, 0x0C41, 0x0C15, 0x0C42, 0x0C32, 0x0C40, 0x0C15, 0x0C30, 0x0C23,
           0x0020, 0x0C2A, 0x0C28, 0x0C3F, 0x0020, 0x0C1A, 0x0C47, 0x0C2F, 0x0C28, 0x0C3F,
           0x0C35, 0x0C4D, 0x0C35, 0x0C41]),
      (''assistantPersonality'', utf8
          [0x0C38, 0x0C39, 0x0C3E, 0x0C2F, 0x0C15, 0x0020, 0x0C35, 0x0C4D, 0x0C2F, 0x0C15,
           0x0C4D, 0x0C24, 0x0C3F, 0x0C24, 0x0C4D, 0x0C35, 0x0C02]),
      (''customInstructions'', utf8
          [0x0C05, 0x0C28, 0x0C41, 0x0C15, 0x0C42, 0x0C32, 0x0020, 0x0C38, 0x0C42, 0x0C1A,
           0x0C28, 0x0C32, 0x0C41]),
      (''aboutYou'', utf8
          [0x0C2E, 0x0C40, 0x0020, 0x0C17, 0x0C41, 0x0C30, 0x0C3F, 0x0C02, 0x0C1A, 0x0C3F]),
      (''nickname'', utf8
          [0x0C2A, 0x0C47, 0x0C30, 0x0C41]),
      (''occupation'', utf8
          [0x0C35, 0x0C4D, 0x0C2F, 0x0C35, 0x0C38, 0x0C3E, 0x0C2F, 0x0C02, 0x002F, 0x0C09,
           0x0C26, 0x0C4D, 0x0C2F, 0x0C4B, 0x0C17, 0x0C02]),
      (''savePersonalization'', utf8
          [0x0C35, 0x0C4D, 0x0C2F, 0x0C15, 0x0C4D, 0x0C24, 0x0C3F, 0x0C17, 0x0C24, 0x0C40,
           0x0C15, 0x0C30, 0x0C23, 0x0020, 0x0C38, 0x0C47, 0x0C35, 0x0C4D, 0x0020, 0x0C1A,
           0x0C47, 0x0C2F, 0x0C02, 0x0C21, 0x0C3F]),
      (''notifications'', utf8
          [0x0C28, 0x0C4B, 0x0C1F, 0x0C3F, 0x0C2B, 0x0C3F, 0x0C15, 0x0C47, 0x0C37, 0x0C28,
           0x0C4D, 0x0C32, 0x0C41]),
      (''emailNotifications'', utf8
          [0x0C07, 0x0C2E, 0x0C46, 0x0C2F, 0x0C3F, 0x0C32, 0x0C4D, 0x0020, 0x0C28, 0x0C4B,
           0x0C1F, 0x0C3F, 0x0C2B, 0x0C3F, 0x0C15, 0x0C47, 0x0C37, 0x0C28, 0x0C4D, 0x0C32,
           0x0C41]),
      (''systemNotifications'', utf8
          [0x0C38, 0x0C3F, 0x0C38, 0x0C4D, 0x0C1F, 0x0C2E, 0x0C4D, 0x0020, 0x0C28, 0x0C4B,
           0x0C1F, 0x0C3F, 0x0C2B, 0x0C3F, 0x0C15, 0x0C47, 0x0C37, 0x0C28, 0x0C4D, 0x0C32,
           0x0C41]),
      (''soundAlerts'', utf8
          [0x0C06, 0x0C21, 0x0C3F, 0x0C2F, 0x0C4B, 0x0020, 0x0C05, 0x0C32, 0x0C30, 0x0C4D,
           0x0C1F, 0x0C4D, 0x0C38, 0x0C4D]),
      (''weeklySummary'', utf8
          [0x0C35, 0x0C3E, 0x0C30, 0x0C2A, 0x0C41, 0x0020, 0x0C38, 0x0C3E, 0x0C30, 0x0C3E,
           0x0C02, 0x0C36, 0x0C02]),
      (''privacy'', utf8
          [0x0C17, 0x0C4B, 0x0C2A, 0x0C4D, 0x0C2F, 0x0C24, 0x0020, 0x0026, 0x0020, 0x0C2D,
           0x0C26, 0x0C4D, 0x0C30, 0x0C24]),
      (''twoFA'', utf8
          [0x0C30, 0x0C46, 0x0C02, 0x0C21, 0x0C41, 0x002D, 0x0C38, 0x0C4D, 0x0C1F, 0x0C46,
           0x0C2A, 0x0C4D, 0x0020, 0x0C2A, 0x0C30, 0x0C3F, 0x0C36, 0x0C40, 0x0C32, 0x0C28]),
      (''activeSessions'', utf8
          [0x0C1A, 0x0C3E, 0x0C32, 0x0C3F, 0x0C02, 0x0C1A, 0x0C47, 0x0020, 0x0C38, 0x0C46,
           0x0C37, 0x0C28, 0x0C4D, 0x0C32, 0x0C41]),
      (''requestData'', utf8
          [0x0C21, 0x0C47, 0x0C1F, 0x0C3E, 0x0020, 0x0C21, 0x0C4C, 0x0C28, 0x0C4D, 0x0C32,
           0x0C4B, 0x0C21, 0x0C4D, 0x0020, 0x0C05, 0x0C2D, 0x0C4D, 0x0C2F, 0x0C30, 0x0C4D,
           0x0C25, 0x0C28]),
      (''clearHistory'', utf8
          [0x0C1A, 0x0C3E, 0x0C1F, 0x0C4D, 0x0020, 0x0C39, 0x0C3F, 0x0C38, 0x0C4D, 0x0C1F,
           0x0C4D, 0x0C30, 0x0C40, 0x0020, 0x0C28, 0x0C3F, 0x0020, 0x0C15, 0x0C4D, 0x0C32,
           0x0C3F, 0x0C2F, 0x0C30, 0x0C4D, 0x0020, 0x0C1A, 0x0C47, 0x0C2F, 0x0C3F]),
      (''aboutSupport'', utf8
          [0x0C17, 0x0C41, 0x0C30, 0x0C3F, 0x0C02, 0x0C1A, 0x0C3F, 0x0020, 0x0026, 0x0020,
           0x0C2E, 0x0C26, 0x0C4D, 0x0C26, 0x0C24, 0x0C41]),
      (''contactSupport'', utf8
          [0x0C2E, 0x0C26, 0x0C4D, 0x0C26, 0x0C24, 0x0C41, 0x0C28, 0x0C41, 0x0020, 0x0C38,
           0x0C02, 0x0C2A, 0x0C4D, 0x0C30, 0x0C26, 0x0C3F, 0x0C02, 0x0C1A, 0x0C02, 0x0C21,
           0x0C3F]),
      (''terms'', utf8
          [0x0C38, 0x0C47, 0x0C35, 0x0C3E, 0x0020, 0x0C37, 0x0C30, 0x0C24, 0x0C41, 0x0C32,
           0x0C41]),
      (''privacyPolicy'', utf8
          [0x0C17, 0x0C4B, 0x0C2A, 0x0C4D, 0x0C2F, 0x0C24, 0x0020, 0x0C35, 0x0C3F, 0x0C27,
           0x0C3E, 0x0C28, 0x0C2E, 0x0C41]),
      (''reportBug'', utf8
          [0x0C2C, 0x0C17, 0x0C4D, 0x0020, 0x0C28, 0x0C3F, 0x0C35, 0x0C47, 0x0C26, 0x0C3F,
           0x0C02, 0x0C1A, 0x0C02, 0x0C21, 0x0C3F]) ]\<close>

definition hi_table :: "(string \<times> string) list" where
  \<open>hi_table =
    [
      (''settings'', utf8
          [0x0938, 0x0947, 0x091F, 0x093F, 0x0902, 0x0917, 0x094D, 0x0938]),
      (''accountSettings'', utf8
          [0x0916, 0x093E, 0x0924, 0x093E, 0x0020, 0x0938, 0x0947, 0x091F, 0x093F, 0x0902,
           0x0917, 0x094D, 0x0938]),
      (''profile'', utf8
          [0x092A, 0x094D, 0x0930, 0x094B, 0x092B, 0x093C, 0x093E, 0x0907, 0x0932]),
      (''uploadPhoto'', utf8
          [0x092B, 0x093C, 0x094B, 0x091F, 0x094B, 0x0020, 0x0905, 0x092A, 0x0932, 0x094B,
           0x0921, 0x0020, 0x0915, 0x0930, 0x0947, 0x0902]),
      (''username'', utf8
          [0x0909, 0x092A, 0x092F, 0x094B, 0x0917, 0x0915, 0x0930, 0x094D, 0x0924, 0x093E,
           0x0020, 0x0928, 0x093E, 0x092E]),
      (''email'', utf8
          [0x0908, 0x092E, 0x0947, 0x0932]),
      (''cancel'', utf8
          [0x0930, 0x0926, 0x094D, 0x0926, 0x0020, 0x0915, 0x0930, 0x0947, 0x0902]),
      (''save'', utf8
          [0x0938, 0x0947, 0x0935]),
      (''preferences'', utf8
          [0x092A, 0x094D, 0x0930, 0x0947, 0x092B, 0x093C, 0x0930, 0x0947, 0x0902, 0x0938,
           0x0947, 0x091C, 0x093C]),
      (''theme'', utf8
          [0x0925, 0x0940, 0x092E]),
      (''fontSize'', utf8
          [0x092B, 0x093C, 0x0949, 0x0928, 0x094D, 0x091F, 0x0020, 0x0906, 0x0915, 0x093E,
           0x0930]),
      (''language'', utf8
          [0x092D, 0x093E, 0x0937, 0x093E]),
      (''personalization'', utf8
          [0x0935, 0x094D, 0x092F, 0x0915, 0x094D, 0x0924, 0x093F, 0x0917, 0x0924, 0x0915,
           0x0930, 0x0923]),
      (''enableCustomization'', utf8
          [0x0905, 0x0928, 0x0941, 0x0915, 0x0942, 0x0932, 0x0928, 0x0020, 0x0938, 0x0915,
           0x094D, 0x0937, 0x092E, 0x0020, 0x0915, 0x0930, 0x0947, 0x0902]),
      (''assistantPersonality'', utf8
          [0x0938, 0x0939, 0x093E, 0x092F, 0x0915, 0x0020, 0x0935, 0x094D, 0x092F, 0x0915,
           0x094D, 0x0924, 0x093F, 0x0924, 0x094D, 0x0935]),
      (''customInstructions'', utf8
          [0x0915, 0x0938, 0x094D, 0x091F, 0x092E, 0x0020, 0x0928, 0x093F, 0x0930, 0x094D,
           0x0926, 0x0947, 0x0936]),
      (''aboutYou'', utf8
          [0x0906, 0x092A, 0x0915, 0x0947, 0x0020, 0x092C, 0x093E, 0x0930, 0x0947, 0x0020,
           0x092E, 0x0947, 0x0902]),
      (''nickname'', utf8
          [0x0909, 0x092A, 0x0928, 0x093E, 0x092E]),
      (''occupation'', utf8
          [0x092A, 0x0947, 0x0936, 0x093E]),
      (''savePersonalization'', utf8
          [0x0935, 0x094D, 0x092F, 0x0915, 0x094D, 0x0924, 0x093F, 0x0917, 0x0924, 0x0915,
           0x0930, 0x0923, 0x0020, 0x0938, 0x0939, 0x0947, 0x091C, 0x0947, 0x0902]),
      (''notifications'', utf8
          [0x0938, 0x0942, 0x091A, 0x0928, 0x093E, 0x090F, 0x0902]),
      (''emailNotifications'', utf8
          [0x0908, 0x092E, 0x0947, 0x0932, 0x0020, 0x0938, 0x0942, 0x091A, 0x0928, 0x093E,
           0x090F, 0x0902]),
      (''systemNotifications'', utf8
          [0x0938, 0x093F, 0x0938, 0x094D, 0x091F, 0x092E, 0x0020, 0x0938, 0x0942, 0x091A,
           0x0928, 0x093E, 0x090F, 0x0902]),
      (''soundAlerts'', utf8
          [0x0927, 0x094D, 0x0935, 0x0928, 0x093F, 0x0020, 0x0905, 0x0932, 0x0930, 0x094D,
           0x091F]),
      (''weeklySummary'', utf8
          [0x0938, 0x093E, 0x092A, 0x094D, 0x0924, 0x093E, 0x0939, 0x093F, 0x0915, 0x0020,
           0x0938, 0x093E, 0x0930, 0x093E, 0x0902, 0x0936]),
      (''privacy'', utf8
          [0x0917, 0x094B, 0x092A, 0x0928, 0x0940, 0x092F, 0x0924, 0x093E, 0x0020, 0x0914,
           0x0930, 0x0020, 0x0938, 0x0941, 0x0930, 0x0915, 0x094D, 0x0937, 0x093E]),
      (''twoFA'', utf8
          [0x0926, 0x094B, 0x002D, 0x091A, 0x0930, 0x0923, 0x0020, 0x092A, 0x094D, 0x0930,
           0x092E, 0x093E, 0x0923, 0x0940, 0x0915, 0x0930, 0x0923]),
      (''activeSessions'', utf8
          [0x0938, 0x0915, 0x094D, 0x0930, 0x093F, 0x092F, 0x0020, 0x0938, 0x0924, 0x094D,
           0x0930]),
      (''requestData'', utf8
          [0x0921, 0x0947, 0x091F, 0x093E, 0x0020, 0x0921, 0x093E, 0x0909, 0x0928, 0x0932,
           0x094B, 0x0921, 0x0020, 0x0915, 0x093E, 0x0020, 0x0905, 0x0928, 0x0941, 0x0930,
           0x094B, 0x0927, 0x0020, 0x0915, 0x0930, 0x0947, 0x0902]),
      (''clearHistory'', utf8
          [0x091A, 0x0948, 0x091F, 0x0020, 0x0907, 0x0924, 0x093F, 0x0939, 0x093E, 0x0938,
           0x0020, 0x0938, 0x093E, 0x092B, 0x093C, 0x0020, 0x0915, 0x0930, 0x0947, 0x0902]),
      (''aboutSupport'', utf8
          [0x092C, 0x093E, 0x0930, 0x0947, 0x0020, 0x092E, 0x0947, 0x0902, 0x0020, 0x0914,
           0x0930, 0x0020, 0x0938, 0x0939, 0x093E, 0x092F, 0x0924, 0x093E]),
      (''contactSupport'', utf8
          [0x0938, 0x0902, 0x092A, 0x0930, 0x094D, 0x0915, 0x0020, 0x0938, 0x0939, 0x093E,
           0x092F, 0x0924, 0x093E]),
      (''terms'', utf8
          [0x0938, 0x0947, 0x0935, 0x093E, 0x0020, 0x0915, 0x0940, 0x0020, 0x0936, 0x0930,
           0x094D, 0x0924, 0x0947, 0x0902]),
      (''privacyPolicy'', utf8
          [0x0917, 0x094B, 0x092A, 0x0928, 0x0940, 0x092F, 0x0924, 0x093E, 0x0020, 0x0928,
           0x0940, 0x0924, 0x093F]),
      (''reportBug'', utf8
          [0x092C, 0x0917, 0x0020, 0x0930, 0x093F, 0x092A, 0x094B, 0x0930, 0x094D, 0x091F,
           0x0020, 0x0915, 0x0930, 0x0947, 0x0902]) ]\<close>

definition translations_obj :: "(string \<times> (string \<times> string) list) list" where
  "translations_obj = [(''en'', en_table), (''te'', te_table), (''hi'', hi_table)]"

subsection \<open>The lookup \<open>t\<close>\<close>

text \<open>
  Reading a property of a plain object finds the object's own property or, failing that, a
  member inherited from \<open>Object.prototype\<close>; only a name found in neither gives \<open>undefined\<close>.
  \<open>Host n\<close> is the built-in object a plain object inherits under the name \<open>n\<close> (the
  function \<open>Object\<close> for \<open>constructor\<close>, \<open>Object.prototype\<close> itself for \<open>__proto__\<close>, a
  function for each of the others). What the properties of those built-in objects are is
  the JavaScript host's business: \<open>t\<close> takes it as the parameter \<open>host\<close>, which gives the
  result of reading property \<open>k\<close> of \<open>Host n\<close> (a value, or an exception).
\<close>

datatype error = SyntaxError | TypeError

datatype jsval = Undefined | Null | Bool bool | Num int | Str string | Host string

definition object_prototype_names :: "string list" where
  "object_prototype_names =
     [ ''constructor'', ''__defineGetter__'', ''__defineSetter__'', ''hasOwnProperty'',
       ''__lookupGetter__'', ''__lookupSetter__'', ''isPrototypeOf'',
       ''propertyIsEnumerable'', ''toString'', ''valueOf'', ''__proto__'',
       ''toLocaleString'' ]"

definition truthy_val :: "jsval \<Rightarrow> bool" where
  "truthy_val v =
     (case v of Undefined \<Rightarrow> False | Null \<Rightarrow> False | Bool b \<Rightarrow> b | Num n \<Rightarrow> n \<noteq> 0
      | Str s \<Rightarrow> s \<noteq> [] | Host n \<Rightarrow> True)"

text \<open>\<open>a || b\<close> where evaluating \<open>b\<close> has no effect.\<close>

definition or_else :: "jsval \<Rightarrow> jsval \<Rightarrow> jsval" where
  "or_else a b = (if truthy_val a then a else b)"

text \<open>\<open>translations[l]\<close>: one of the three tables, an inherited member, or \<open>undefined\<close>.\<close>

datatype holder = Own_table "(string \<times> string) list" | Inherited_member string | No_holder

definition translations_member :: "string \<Rightarrow> holder" where
  "translations_member l =
     (case map_of translations_obj l of
        Some tb \<Rightarrow> Own_table tb
      | None \<Rightarrow> if l \<in> set object_prototype_names then Inherited_member l else No_holder)"

definition table_member :: "(string \<times> string) list \<Rightarrow> string \<Rightarrow> jsval" where
  "table_member tb k =
     (case map_of tb k of
        Some s \<Rightarrow> Str s
      | None \<Rightarrow> if k \<in> set object_prototype_names then Host k else Undefined)"

text \<open>\<open>h[k]\<close>: reading a property of \<open>undefined\<close> throws a \<open>TypeError\<close>.\<close>

definition holder_member ::
  "(string \<Rightarrow> string \<Rightarrow> error + jsval) \<Rightarrow> holder \<Rightarrow> string \<Rightarrow> error + jsval" where
  "holder_member host h k =
     (case h of
        Own_table tb \<Rightarrow> Inr (table_member tb k)
      | Inherited_member n \<Rightarrow> host n k
      | No_holder \<Rightarrow> Inl TypeError)"

definition try_catch :: "error + 'a \<Rightarrow> (error \<Rightarrow> error + 'a) \<Rightarrow> error + 'a" where
  "try_catch body handler = (case body of Inl e \<Rightarrow> handler e | Inr v \<Rightarrow> Inr v)"

definition t :: "(string \<Rightarrow> string \<Rightarrow> error + jsval) \<Rightarrow> string \<Rightarrow> string \<Rightarrow> error + jsval" where
  "t host k lang =
     try_catch
       (case holder_member host (translations_member (if lang = [] then ''en'' else lang)) k of
          Inl e \<Rightarrow> Inl e
        | Inr v \<Rightarrow> Inr (or_else v (or_else (table_member en_table k) (Str k))))
       (\<lambda>e. Inr (or_else (table_member en_table k) (Str k)))"

text \<open>A host whose built-in objects have no property the lookup could find.\<close>

definition bare_host :: "string \<Rightarrow> string \<Rightarrow> error + jsval" where
  "bare_host n k = Inr Undefined"

text \<open>
  The lookup as the specification words it: the selected language's translation when
  defined, otherwise the English one when defined, otherwise the key.
\<close>

definition translation_of :: "string \<Rightarrow> string \<Rightarrow> string option" where
  "translation_of l k = (case map_of translations_obj l of None \<Rightarrow> None | Some tb \<Rightarrow> map_of tb k)"

definition t_spec :: "string \<Rightarrow> string \<Rightarrow> string" where
  "t_spec k lang =
     (case translation_of (if lang = [] then ''en'' else lang) k of
        Some s \<Rightarrow> s
      | None \<Rightarrow> (case translation_of ''en'' k of Some s \<Rightarrow> s | None \<Rightarrow> k))"

subsection \<open>JSON values and local storage\<close>

text \<open>
  The values the page keeps in its state and writes to local storage are JSON values. An
  object is the list of its own properties; a property is read with \<open>map_of\<close>. Numbers
  matter only for being zero or not, and are integers here.
\<close>

datatype json =
    JNull
  | JBool bool
  | JNum int
  | JStr string
  | JArr "json list"
  | JObj "(string \<times> json) list"













subsection \<open>The state of the Settings component\<close>

record settings_state =
  profile :: json
  avatarPreview :: json
  theme :: json
  fontSize :: json
  language :: json
  customizationEnabled :: json
  personality :: json
  customInstructions :: json
  about :: json
  notifications :: json
  apiKeys :: json
  saving :: bool
  savedMsg :: string
  toast :: string


subsection \<open>\<open>saveChanges\<close>\<close>




subsection \<open>Mounting the component\<close>



















section \<open>Backend behaviour described by the guides\<close>

subsection \<open>Mail configuration and \<open>/test-email\<close>\<close>

text \<open>
  Modelled from the spec: the mail settings of the backend's environment. The FastAPI
  service is not among the sources; the deployment guide names the three variables
  \<open>MAIL_USERNAME\<close>, \<open>MAIL_PASSWORD\<close> and \<open>MAIL_FROM\<close>. A variable that is not set is \<open>None\<close>.
\<close>

record mail_settings =
  MAIL_USERNAME :: "string option"
  MAIL_PASSWORD :: "string option"
  MAIL_FROM :: "string option"

text \<open>
  Modelled from the spec: the email feature is enabled when the mail configuration is
  present, that is, when the three variables are set ("if not set, email endpoints will be
  disabled").
\<close>

definition email_enabled :: "mail_settings \<Rightarrow> bool" where
  "email_enabled cfg =
     (MAIL_USERNAME cfg \<noteq> None \<and> MAIL_PASSWORD cfg \<noteq> None \<and> MAIL_FROM cfg \<noteq> None)"

text \<open>
  Modelled from the spec: the answer of an endpoint, its HTTP status and what decided it
  (the missing mail configuration, or the attempt to send the mail).
\<close>

datatype cause = Mail_not_configured | Mail_attempted

record reply =
  status_code :: nat
  cause :: cause

text \<open>
  Modelled from the spec: the endpoint \<open>/test-email\<close> ("Without them, \<open>/test-email\<close> will
  return 503"). With the feature enabled the status is the one the attempt to send the
  test mail gives, \<open>sent\<close>, about which the guide says nothing.
\<close>

definition test_email :: "mail_settings \<Rightarrow> nat \<Rightarrow> reply" where
  "test_email cfg sent =
     (if email_enabled cfg then \<lparr>status_code = sent, cause = Mail_attempted\<rparr>
      else \<lparr>status_code = 503, cause = Mail_not_configured\<rparr>)"

definition no_mail_settings :: mail_settings where
  "no_mail_settings = \<lparr>MAIL_USERNAME = None, MAIL_PASSWORD = None, MAIL_FROM = None\<rparr>"

definition full_mail_settings :: mail_settings where
  "full_mail_settings =
     \<lparr>MAIL_USERNAME = Some ''maya@example.com'', MAIL_PASSWORD = Some ''secret'',
      MAIL_FROM = Some ''maya@example.com''\<rparr>"

subsection \<open>Web search: providers and cache\<close>

text \<open>
  Modelled from the spec: the two search providers of the search guide and the keys that
  make them available (\<open>SERPAPI_KEY\<close> for SerpAPI; \<open>GOOGLE_API_KEY\<close> and
  \<open>GOOGLE_SEARCH_CX_ID\<close> for Google Custom Search). The module
  \<open>app.services.realtime_search\<close> is not among the sources.
\<close>

datatype provider = SerpAPI | GoogleCustomSearch

record search_settings =
  SERPAPI_KEY :: "string option"
  GOOGLE_API_KEY :: "string option"
  GOOGLE_SEARCH_CX_ID :: "string option"

definition serpapi_available :: "search_settings \<Rightarrow> bool" where
  "serpapi_available cfg = (SERPAPI_KEY cfg \<noteq> None)"

definition google_available :: "search_settings \<Rightarrow> bool" where
  "google_available cfg = (GOOGLE_API_KEY cfg \<noteq> None \<and> GOOGLE_SEARCH_CX_ID cfg \<noteq> None)"

text \<open>
  Modelled from the spec: what the outside world answers. A provider gives the results of
  a query (a JSON blob) or fails (\<open>None\<close>: an error, or no answer within its 10 seconds).
\<close>

record providers =
  serpapi :: "string \<Rightarrow> string option"
  google :: "string \<Rightarrow> string option"

text \<open>
  Modelled from the spec: "Searches using SerpAPI first, falls back to Google Custom Search
  if needed". The result is the list of the providers queried, in order, and the results
  if one of them answered.
\<close>

definition query_providers ::
  "search_settings \<Rightarrow> providers \<Rightarrow> string \<Rightarrow> provider list \<times> string option" where
  "query_providers cfg ps q =
     (let tried = (if serpapi_available cfg then [SerpAPI] else []);
          first = (if serpapi_available cfg then serpapi ps q else None)
      in case first of
           Some r \<Rightarrow> (tried, Some r)
         | None \<Rightarrow>
             if google_available cfg then (tried @ [GoogleCustomSearch], google ps q)
             else (tried, None))"

text \<open>
  Modelled from the spec: the cache of search results, "query hash \<open>\<rightarrow>\<close> JSON blob, 1-hour
  expiry". An entry holds the blob and the second at which it expires; \<open>now\<close> is the
  clock, in seconds.
\<close>

type_synonym cache = "string \<Rightarrow> (string \<times> nat) option"

definition TTL :: nat where
  "TTL = 3600"

text \<open>
  Modelled from the spec: the key of a query, as the search guide computes it,
  \<open>search:query:\<close> followed by the first 16 characters of the hexadecimal SHA-256 digest of
  the lowercased query. The digest function is the parameter \<open>sha256_hex\<close>.
\<close>

definition cache_key :: "(string \<Rightarrow> string) \<Rightarrow> string \<Rightarrow> string" where
  "cache_key sha256_hex q = ''search:query:'' @ take 16 (sha256_hex (toLowerCase q))"

text \<open>
  Modelled from the spec: reading and writing the cache. An entry written at \<open>now\<close> expires
  at \<open>now + TTL\<close> and is not found from that second on.
\<close>

definition cache_get :: "nat \<Rightarrow> string \<Rightarrow> cache \<Rightarrow> string option" where
  "cache_get now k c =
     (case c k of None \<Rightarrow> None | Some e \<Rightarrow> if now < snd e then Some (fst e) else None)"

definition cache_set :: "nat \<Rightarrow> string \<Rightarrow> string \<Rightarrow> cache \<Rightarrow> cache" where
  "cache_set now k v c = c(k \<mapsto> (v, now + TTL))"

text \<open>
  Modelled from the spec: \<open>smart_search\<close>. A query whose results are in the cache is served
  from it and no provider is queried; otherwise the providers are queried and the results,
  if any, are cached. It returns the providers queried, the results and the cache.
\<close>

definition smart_search ::
  "(string \<Rightarrow> string) \<Rightarrow> search_settings \<Rightarrow> providers \<Rightarrow> nat \<Rightarrow> cache \<Rightarrow> string
     \<Rightarrow> provider list \<times> string option \<times> cache" where
  "smart_search sha256_hex cfg ps now c q =
     (case cache_get now (cache_key sha256_hex q) c of
        Some r \<Rightarrow> ([], Some r, c)
      | None \<Rightarrow>
          (case query_providers cfg ps q of
             (tried, Some r) \<Rightarrow> (tried, Some r, cache_set now (cache_key sha256_hex q) r c)
           | (tried, None) \<Rightarrow> (tried, None, c)))"

text \<open>Sample surroundings: settings, providers, a digest function and a cache.\<close>

definition both_keys :: search_settings where
  "both_keys =
     \<lparr>SERPAPI_KEY = Some ''serp-key'', GOOGLE_API_KEY = Some ''google-key'',
      GOOGLE_SEARCH_CX_ID = Some ''cx''\<rparr>"

definition no_answer :: "string \<Rightarrow> string option" where
  "no_answer q = None"

definition google_answer :: "string \<Rightarrow> string option" where
  "google_answer q = Some (''google: '' @ q)"

definition serpapi_down :: providers where
  "serpapi_down = \<lparr>serpapi = no_answer, google = google_answer\<rparr>"

definition all_down :: providers where
  "all_down = \<lparr>serpapi = no_answer, google = no_answer\<rparr>"

definition sample_digest :: "string \<Rightarrow> string" where
  "sample_digest s = ''0123456789abcdef0123456789abcdef''"

definition empty_cache :: cache where
  "empty_cache = Map.empty"

definition warm_cache :: cache where
  "warm_cache = Map.empty(''search:query:0123456789abcdef'' \<mapsto> (''google: AI news'', 4600))"

definition serpapi_answer :: "string \<Rightarrow> string option" where
  "serpapi_answer q = Some (''serpapi: '' @ q)"

definition all_up :: providers where
  "all_up = \<lparr>serpapi = serpapi_answer, google = google_answer\<rparr>"

definition google_keys_only :: search_settings where
  "google_keys_only =
     \<lparr>SERPAPI_KEY = None, GOOGLE_API_KEY = Some ''google-key'',
      GOOGLE_SEARCH_CX_ID = Some ''cx''\<rparr>"

section \<open>Properties of the Help page\<close>

lemma starts_with_iff: "starts_with s q \<longleftrightarrow> (\<exists>ss. s = q @ ss)"
  by (induction s q rule: starts_with.induct) auto

lemma str_includes_iff: "str_includes s q \<longleftrightarrow> (\<exists>ps ss. s = ps @ q @ ss)"
proof (induction s)
  case Nil
  then show ?case by auto
next
  case (Cons d s)
  show ?case
  proof
    assume "str_includes (d # s) q"
    then consider "starts_with (d # s) q" | "str_includes s q" by auto
    then show "\<exists>ps ss. d # s = ps @ q @ ss"
    proof cases
      case 1
      then obtain ss where "d # s = q @ ss" by (auto simp: starts_with_iff)
      then have "d # s = [] @ q @ ss" by simp
      then show ?thesis by blast
    next
      case 2
      with Cons.IH obtain ps ss where "s = ps @ q @ ss" by blast
      then have "d # s = (d # ps) @ q @ ss" by simp
      then show ?thesis by blast
    qed
  next
    assume "\<exists>ps ss. d # s = ps @ q @ ss"
    then obtain ps ss where eq: "d # s = ps @ q @ ss" by blast
    show "str_includes (d # s) q"
    proof (cases ps)
      case Nil
      with eq have "starts_with (d # s) q" by (auto simp: starts_with_iff)
      then show ?thesis by simp
    next
      case (Cons p ps')
      with eq have "s = ps' @ q @ ss" by simp
      with Cons.IH have "str_includes s q" by blast
      then show ?thesis by simp
    qed
  qed
qed

lemma set_add_all_set: "set (set_add_all seen xs) = set seen \<union> set xs"
  by (induction xs arbitrary: seen) auto

lemma set_add_all_distinct: "distinct seen \<Longrightarrow> distinct (set_add_all seen xs)"
  by (induction xs arbitrary: seen) auto

lemma filtered_from_length: "length (filtered_from ts query) \<le> 6"
  by (simp add: filtered_from_def Let_def)

lemma filtered_from_member:
  assumes "e \<in> set (filtered_from ts query)"
  shows "e \<in> set ts \<and> str_includes (toLowerCase e) (toLowerCase query)"
proof -
  from assms have ne: "query \<noteq> []"
    by (auto simp: filtered_from_def split: if_splits)
  with assms have "e \<in> set (take 6 (filter (\<lambda>t. str_includes (toLowerCase t) (toLowerCase query)) ts))"
    by (simp add: filtered_from_def Let_def)
  then have "e \<in> set (filter (\<lambda>t. str_includes (toLowerCase t) (toLowerCase query)) ts)"
    by (rule in_set_takeD)
  then show ?thesis by simp
qed

text \<open>
  C9. For every query typed into the Help search box the suggestion list has at most six
  entries, every entry is one of the help topics and its lowercased text contains the
  lowercased query as a substring, and the empty query gives the empty list.
\<close>

theorem filtered_suggestions:
  "length (filtered query) \<le> 6
   \<and> (\<forall>e \<in> set (filtered query).
         e \<in> set topics \<and> (\<exists>ps ss. toLowerCase e = ps @ toLowerCase query @ ss))
   \<and> filtered [] = []"
proof (intro conjI ballI)
  show "length (filtered query) \<le> 6"
    by (simp add: filtered_def filtered_from_length)
next
  fix e assume "e \<in> set (filtered query)"
  then have "e \<in> set (filtered_from topics query)" by (simp add: filtered_def)
  then have m: "e \<in> set topics \<and> str_includes (toLowerCase e) (toLowerCase query)"
    by (rule filtered_from_member)
  then show "e \<in> set topics" by simp
  from m show "\<exists>ps ss. toLowerCase e = ps @ toLowerCase query @ ss"
    by (simp add: str_includes_iff)
next
  show "filtered [] = []" by (simp add: filtered_def filtered_from_def)
qed

theorem filtered_suggestions_witness:
  "''Getting Started'' \<in> set (filtered ''Start'')
   \<and> ''Getting Started'' \<in> set topics
   \<and> (\<exists>ps ss. toLowerCase ''Getting Started'' = ps @ toLowerCase ''Start'' @ ss)"
proof -
  have m: "''Getting Started'' \<in> set (filtered ''Start'')" by code_simp
  with filtered_suggestions [of "''Start''"] show ?thesis by blast
qed

lemma perform_resets:
  "\<forall>a \<in> set as. a = SetSubmitted False \<Longrightarrow> as \<noteq> [] \<Longrightarrow> \<not> submitted (perform as p)"
proof (induction as arbitrary: p)
  case Nil
  then show ?case by simp
next
  case (Cons a as)
  then have a: "a = SetSubmitted False" by simp
  show ?case
  proof (cases as)
    case Nil
    with a show ?thesis by simp
  next
    case (Cons b bs)
    with Cons.prems Cons.IH [of "p\<lparr>submitted := False\<rparr>"] a show ?thesis by simp
  qed
qed

lemma submit_contact_page:
  "submit_contact c p =
     p\<lparr>console := console p @ [(''Contact submission'', c)], submitted := True,
       timers := timers p @ [(4000, [SetSubmitted False])]\<rparr>"
  by (simp add: submit_contact_def handleContactSubmit_def)

text \<open>
  C4. Submitting the contact form is a placeholder. For every contact state the handler
  issues no request (its actions contain no \<open>Fetch\<close> and the page's requests are unchanged),
  logs the contact object on the console, sets \<open>submitted\<close> to true and registers a timer of
  4000 milliseconds that sets it to false: with no other timer pending the flag is true
  exactly until 4000 milliseconds have passed, and when the pending timers are those of
  earlier submissions the flag is false once 4000 milliseconds have passed.
\<close>

theorem handleContactSubmit_placeholder:
  "Fetch u \<notin> set (handleContactSubmit c)
    \<and> requests (submit_contact c p) = requests p
    \<and> console (submit_contact c p) = console p @ [(''Contact submission'', c)]
    \<and> submitted (submit_contact c p)
    \<and> timers (submit_contact c p) = timers p @ [(4000, [SetSubmitted False])]
    \<and> (timers p = [] \<longrightarrow> submitted (advance d (submit_contact c p)) = (d < 4000))
    \<and> ((\<forall>t \<in> set (timers p). snd t = [SetSubmitted False]) \<and> 4000 \<le> d
          \<longrightarrow> \<not> submitted (advance d (submit_contact c p)))"
proof (intro conjI impI)
  show "Fetch u \<notin> set (handleContactSubmit c)" by (simp add: handleContactSubmit_def)
  show "requests (submit_contact c p) = requests p" by (simp add: submit_contact_page)
  show "console (submit_contact c p) = console p @ [(''Contact submission'', c)]"
    by (simp add: submit_contact_page)
  show "submitted (submit_contact c p)" by (simp add: submit_contact_page)
  show t: "timers (submit_contact c p) = timers p @ [(4000, [SetSubmitted False])]"
    by (simp add: submit_contact_page)
  show "submitted (advance d (submit_contact c p)) = (d < 4000)" if "timers p = []"
    using that by (simp add: submit_contact_page advance_def)
  show "\<not> submitted (advance d (submit_contact c p))"
    if h: "(\<forall>t \<in> set (timers p). snd t = [SetSubmitted False]) \<and> 4000 \<le> d"
  proof -
    let ?due = "sort_key fst (filter (\<lambda>t. fst t \<le> d) (timers (submit_contact c p)))"
    let ?acts = "concat (map snd ?due)"
    have mem: "(4000, [SetSubmitted False]) \<in> set ?due" using h t by simp
    have all: "\<forall>t \<in> set ?due. snd t = [SetSubmitted False]" using h t by auto
    have "SetSubmitted False \<in> set ?acts" using mem by force
    then have ne: "?acts \<noteq> []" by (metis empty_iff list.set(1))
    have "\<forall>a \<in> set ?acts. a = SetSubmitted False"
    proof
      fix a assume "a \<in> set ?acts"
      then obtain t where "t \<in> set ?due" "a \<in> set (snd t)" by auto
      with all show "a = SetSubmitted False" by fastforce
    qed
    then show ?thesis using ne unfolding advance_def by (rule perform_resets)
  qed
qed

theorem handleContactSubmit_placeholder_witness:
  "timers blank_page = [] \<and> (4000::nat) \<le> 4000
   \<and> submitted (submit_contact sample_contact blank_page)
   \<and> submitted (advance 3999 (submit_contact sample_contact blank_page))
   \<and> \<not> submitted (advance 4000 (submit_contact sample_contact blank_page))
   \<and> requests (submit_contact sample_contact blank_page) = []"
proof -
  have e: "timers blank_page = []" "requests blank_page = []" by (simp_all add: blank_page_def)
  have a: "(\<forall>t \<in> set (timers blank_page). snd t = [SetSubmitted False]) \<and> (4000::nat) \<le> 4000"
    by (simp add: e)
  from handleContactSubmit_placeholder [of _ sample_contact blank_page 3999]
    handleContactSubmit_placeholder [of _ sample_contact blank_page 4000] e a
  show ?thesis by simp
qed

section \<open>Properties of the translation lookup\<close>

lemma utf8_nonempty: "utf8 (c # cs) \<noteq> []"
  by (simp add: utf8_def utf8_char_def)

lemma en_table_nonempty: "\<forall>p \<in> set en_table. snd p \<noteq> []"
  by (simp add: en_table_def)

lemma te_table_nonempty: "\<forall>p \<in> set te_table. snd p \<noteq> []"
  by (simp add: te_table_def utf8_nonempty)

lemma hi_table_nonempty: "\<forall>p \<in> set hi_table. snd p \<noteq> []"
  by (simp add: hi_table_def utf8_nonempty)

lemma translation_nonempty:
  assumes "map_of translations_obj l = Some tb" and "map_of tb k = Some s"
  shows "s \<noteq> []"
proof -
  from assms(1) have "tb = en_table \<or> tb = te_table \<or> tb = hi_table"
    by (auto simp: translations_obj_def split: if_splits)
  moreover from assms(2) have "(k, s) \<in> set tb" by (rule map_of_SomeD)
  ultimately show ?thesis
    using en_table_nonempty te_table_nonempty hi_table_nonempty by fastforce
qed

lemma en_is_table: "map_of translations_obj ''en'' = Some en_table"
  by (simp add: translations_obj_def)

lemma en_fallback:
  assumes "k \<notin> set object_prototype_names"
  shows "or_else (table_member en_table k) (Str k)
         = Str (case translation_of ''en'' k of Some s \<Rightarrow> s | None \<Rightarrow> k)"
proof (cases "map_of en_table k")
  case None
  with assms show ?thesis
    by (simp add: table_member_def or_else_def truthy_val_def translation_of_def en_is_table)
next
  case (Some s)
  with en_is_table have "s \<noteq> []" by (rule translation_nonempty)
  with Some show ?thesis
    by (simp add: table_member_def or_else_def truthy_val_def translation_of_def en_is_table)
qed

lemma t_returns: "\<exists>v. t host k lang = Inr v"
  by (simp add: t_def try_catch_def split: sum.splits)

lemma t_follows_spec:
  assumes k: "k \<notin> set object_prototype_names" and l: "lang \<notin> set object_prototype_names"
  shows "t host k lang = Inr (Str (t_spec k lang))"
proof -
  define l' where "l' = (if lang = [] then ''en'' else lang)"
  have l': "l' \<notin> set object_prototype_names"
    using l by (simp add: l'_def object_prototype_names_def)
  show ?thesis
  proof (cases "map_of translations_obj l'")
    case None
    with l' have "holder_member host (translations_member l') k = Inl TypeError"
      by (simp add: translations_member_def holder_member_def)
    then have "t host k lang = Inr (or_else (table_member en_table k) (Str k))"
      by (simp add: t_def try_catch_def l'_def)
    moreover from None have "t_spec k lang = (case translation_of ''en'' k of Some s \<Rightarrow> s | None \<Rightarrow> k)"
      by (simp add: t_spec_def translation_of_def l'_def)
    ultimately show ?thesis using en_fallback [OF k] by simp
  next
    case (Some tb)
    then have h: "holder_member host (translations_member l') k = Inr (table_member tb k)"
      by (simp add: translations_member_def holder_member_def)
    then have tt: "t host k lang
        = Inr (or_else (table_member tb k) (or_else (table_member en_table k) (Str k)))"
      by (simp add: t_def try_catch_def l'_def)
    show ?thesis
    proof (cases "map_of tb k")
      case None
      with k have "table_member tb k = Undefined" by (simp add: table_member_def)
      with tt have "t host k lang = Inr (or_else (table_member en_table k) (Str k))"
        by (simp add: or_else_def truthy_val_def)
      moreover from None Some
      have "t_spec k lang = (case translation_of ''en'' k of Some s \<Rightarrow> s | None \<Rightarrow> k)"
        by (simp add: t_spec_def translation_of_def l'_def)
      ultimately show ?thesis using en_fallback [OF k] by simp
    next
      case (Some s)
      with \<open>map_of translations_obj l' = Some tb\<close> have "s \<noteq> []" by (rule translation_nonempty)
      with Some tt have "t host k lang = Inr (Str s)"
        by (simp add: table_member_def or_else_def truthy_val_def)
      moreover from Some \<open>map_of translations_obj l' = Some tb\<close> have "t_spec k lang = s"
        by (simp add: t_spec_def translation_of_def l'_def)
      ultimately show ?thesis by simp
    qed
  qed
qed

text \<open>
  C10, as amended. The lookup \<open>t\<close> never throws, whatever the key, the language and the
  host's built-in objects. For every key and every language code that is not the name of
  a member inherited from \<open>Object.prototype\<close>, it returns the selected language's
  translation of the key when there is one, otherwise the English translation when there
  is one, otherwise the key itself.
\<close>

theorem t_fallback_order:
  "(\<exists>v. t host k lang = Inr v)
   \<and> (k \<notin> set object_prototype_names \<and> lang \<notin> set object_prototype_names
        \<longrightarrow> t host k lang = Inr (Str (t_spec k lang)))"
  using t_returns t_follows_spec by blast

lemma t_spec_save_hi: "t_spec ''save'' ''hi'' = utf8 [0x0938, 0x0947, 0x0935]"
  by (simp add: t_spec_def translation_of_def translations_obj_def hi_table_def)

lemma t_spec_unknown: "t_spec ''logout'' ''fr'' = ''logout''"
  by (simp add: t_spec_def translation_of_def translations_obj_def en_table_def)

theorem t_fallback_order_witness:
  "''save'' \<notin> set object_prototype_names \<and> ''hi'' \<notin> set object_prototype_names
   \<and> ''logout'' \<notin> set object_prototype_names \<and> ''fr'' \<notin> set object_prototype_names
   \<and> t bare_host ''save'' ''hi'' = Inr (Str (utf8 [0x0938, 0x0947, 0x0935]))
   \<and> t bare_host ''logout'' ''fr'' = Inr (Str ''logout'')"
proof -
  have n: "''save'' \<notin> set object_prototype_names" "''hi'' \<notin> set object_prototype_names"
    "''logout'' \<notin> set object_prototype_names" "''fr'' \<notin> set object_prototype_names"
    by (simp_all add: object_prototype_names_def)
  with t_fallback_order [of bare_host "''save''" "''hi''"]
    t_fallback_order [of bare_host "''logout''" "''fr''"]
  show ?thesis by (simp add: t_spec_save_hi t_spec_unknown)
qed

text \<open>
  The claim as it stands, for every key, fails at the key \<open>constructor\<close>: the English
  table has no such entry but inherits the member, a function, and \<open>t\<close> returns that
  function and not the key.
\<close>

theorem t_inherited_member_counterexample:
  "t bare_host ''constructor'' ''en'' = Inr (Host ''constructor'')
   \<and> t_spec ''constructor'' ''en'' = ''constructor''
   \<and> t bare_host ''constructor'' ''en'' \<noteq> Inr (Str (t_spec ''constructor'' ''en''))"
proof -
  have m: "map_of en_table ''constructor'' = None" by (simp add: en_table_def)
  have a: "t bare_host ''constructor'' ''en'' = Inr (Host ''constructor'')"
    by (simp add: t_def try_catch_def holder_member_def translations_member_def
        translations_obj_def table_member_def m object_prototype_names_def or_else_def
        truthy_val_def)
  have b: "t_spec ''constructor'' ''en'' = ''constructor''"
    by (simp add: t_spec_def translation_of_def translations_obj_def m)
  from a b show ?thesis by simp
qed

section \<open>Properties of the Settings page\<close>



























section \<open>Properties of the backend as the guides describe it\<close>

lemma query_providers_tried:
  "fst (query_providers cfg ps q)
     \<in> {[], [SerpAPI], [GoogleCustomSearch], [SerpAPI, GoogleCustomSearch]}"
  by (simp add: query_providers_def Let_def split: option.splits)

lemma query_providers_google:
  "GoogleCustomSearch \<in> set (fst (query_providers cfg ps q))
     \<Longrightarrow> \<not> serpapi_available cfg \<or> serpapi ps q = None"
  by (auto simp: query_providers_def Let_def split: option.splits if_splits)

lemma query_providers_first:
  "serpapi_available cfg \<Longrightarrow> \<exists>rest. fst (query_providers cfg ps q) = SerpAPI # rest"
  by (simp add: query_providers_def Let_def split: option.splits)

lemma query_providers_answered:
  "serpapi_available cfg \<Longrightarrow> serpapi ps q = Some r
     \<Longrightarrow> query_providers cfg ps q = ([SerpAPI], Some r)"
  by (simp add: query_providers_def)

lemma query_providers_fallback:
  "serpapi_available cfg \<Longrightarrow> serpapi ps q = None \<Longrightarrow> google_available cfg
     \<Longrightarrow> query_providers cfg ps q = ([SerpAPI, GoogleCustomSearch], google ps q)"
  by (simp add: query_providers_def)

lemma query_providers_unavailable:
  "\<not> serpapi_available cfg \<Longrightarrow> google_available cfg
     \<Longrightarrow> query_providers cfg ps q = ([GoogleCustomSearch], google ps q)"
  by (simp add: query_providers_def)

lemma smart_search_tried:
  "fst (smart_search h cfg ps now c q) = []
   \<or> fst (smart_search h cfg ps now c q) = fst (query_providers cfg ps q)"
  by (auto simp: smart_search_def split: option.splits prod.splits)

lemma smart_search_on_miss:
  "cache_get now (cache_key h q) c = None
     \<Longrightarrow> fst (smart_search h cfg ps now c q) = fst (query_providers cfg ps q)
         \<and> fst (snd (smart_search h cfg ps now c q)) = snd (query_providers cfg ps q)"
  by (auto simp: smart_search_def split: option.splits prod.splits)

text \<open>
  C6. For every query that is not served from the cache, \<open>smart_search\<close> queries SerpAPI
  first when SerpAPI is available: if SerpAPI answers, it alone is queried and its results
  are returned; if its attempt fails and Google Custom Search is available, the providers
  queried are SerpAPI and then Google Custom Search, whose answer is returned. When SerpAPI
  is unavailable and Google Custom Search is available, Google Custom Search alone is
  queried. For every query, served from the cache or not, the providers are queried in one
  of four ways (none, SerpAPI alone, Google Custom Search alone, SerpAPI and then Google
  Custom Search); Google Custom Search is queried only when SerpAPI is unavailable or its
  attempt failed; when SerpAPI is available and a provider is queried, SerpAPI is the
  first; and Google Custom Search is never queried before SerpAPI.
\<close>

theorem smart_search_failover:
  "fst (smart_search h cfg ps now c q)
     \<in> {[], [SerpAPI], [GoogleCustomSearch], [SerpAPI, GoogleCustomSearch]}
   \<and> (GoogleCustomSearch \<in> set (fst (smart_search h cfg ps now c q))
        \<longrightarrow> \<not> serpapi_available cfg \<or> serpapi ps q = None)
   \<and> (serpapi_available cfg \<and> fst (smart_search h cfg ps now c q) \<noteq> []
        \<longrightarrow> hd (fst (smart_search h cfg ps now c q)) = SerpAPI)
   \<and> (\<forall>xs ys zs. fst (smart_search h cfg ps now c q)
          \<noteq> xs @ [GoogleCustomSearch] @ ys @ [SerpAPI] @ zs)
   \<and> (cache_get now (cache_key h q) c = None \<and> serpapi_available cfg
        \<longrightarrow> (\<exists>rest. fst (smart_search h cfg ps now c q) = SerpAPI # rest))
   \<and> (cache_get now (cache_key h q) c = None \<and> serpapi_available cfg
          \<and> serpapi ps q = Some r
        \<longrightarrow> fst (smart_search h cfg ps now c q) = [SerpAPI]
            \<and> fst (snd (smart_search h cfg ps now c q)) = Some r)
   \<and> (cache_get now (cache_key h q) c = None \<and> serpapi_available cfg
          \<and> serpapi ps q = None \<and> google_available cfg
        \<longrightarrow> fst (smart_search h cfg ps now c q) = [SerpAPI, GoogleCustomSearch]
            \<and> fst (snd (smart_search h cfg ps now c q)) = google ps q)
   \<and> (cache_get now (cache_key h q) c = None \<and> \<not> serpapi_available cfg
          \<and> google_available cfg
        \<longrightarrow> fst (smart_search h cfg ps now c q) = [GoogleCustomSearch]
            \<and> fst (snd (smart_search h cfg ps now c q)) = google ps q)"
proof -
  let ?tried = "fst (smart_search h cfg ps now c q)"
  let ?found = "fst (snd (smart_search h cfg ps now c q))"
  let ?miss = "cache_get now (cache_key h q) c = None"
  have cases: "?tried = [] \<or> ?tried = fst (query_providers cfg ps q)"
    by (rule smart_search_tried)
  have four: "?tried \<in> {[], [SerpAPI], [GoogleCustomSearch], [SerpAPI, GoogleCustomSearch]}"
    using cases query_providers_tried [of cfg ps q] by auto
  have only: "GoogleCustomSearch \<in> set ?tried
        \<longrightarrow> \<not> serpapi_available cfg \<or> serpapi ps q = None"
    using cases query_providers_google [of cfg ps q] by auto
  have head: "serpapi_available cfg \<and> ?tried \<noteq> [] \<longrightarrow> hd ?tried = SerpAPI"
    using cases query_providers_first [of cfg ps q] by auto
  have never: "\<forall>xs ys zs. ?tried \<noteq> xs @ [GoogleCustomSearch] @ ys @ [SerpAPI] @ zs"
  proof (intro allI notI)
    fix xs ys zs
    assume e: "?tried = xs @ [GoogleCustomSearch] @ ys @ [SerpAPI] @ zs"
    then have "length ?tried \<ge> 2" by simp
    with four have "?tried = [SerpAPI, GoogleCustomSearch]" by auto
    with e show False by (cases xs; cases ys; cases zs) auto
  qed
  have first: "?miss \<and> serpapi_available cfg \<longrightarrow> (\<exists>rest. ?tried = SerpAPI # rest)"
    using smart_search_on_miss [of now h q c cfg ps] query_providers_first [of cfg ps q]
    by auto
  have answered: "?miss \<and> serpapi_available cfg \<and> serpapi ps q = Some r
        \<longrightarrow> ?tried = [SerpAPI] \<and> ?found = Some r"
    using smart_search_on_miss [of now h q c cfg ps] query_providers_answered [of cfg ps q r]
    by auto
  have fallback: "?miss \<and> serpapi_available cfg \<and> serpapi ps q = None \<and> google_available cfg
        \<longrightarrow> ?tried = [SerpAPI, GoogleCustomSearch] \<and> ?found = google ps q"
    using smart_search_on_miss [of now h q c cfg ps] query_providers_fallback [of cfg ps q]
    by auto
  have unavailable: "?miss \<and> \<not> serpapi_available cfg \<and> google_available cfg
        \<longrightarrow> ?tried = [GoogleCustomSearch] \<and> ?found = google ps q"
    using smart_search_on_miss [of now h q c cfg ps] query_providers_unavailable [of cfg ps q]
    by auto
  from four only head never first answered fallback unavailable show ?thesis
    by (intro conjI)
qed

lemma sample_settings_available:
  "serpapi_available both_keys" "google_available both_keys"
  "\<not> serpapi_available google_keys_only" "google_available google_keys_only"
  by (simp_all add: serpapi_available_def google_available_def both_keys_def
      google_keys_only_def)

lemma sample_miss: "cache_get 1000 (cache_key sample_digest ''AI news'') empty_cache = None"
  by (simp add: cache_get_def empty_cache_def)

theorem smart_search_failover_witness:
  "cache_get 1000 (cache_key sample_digest ''AI news'') empty_cache = None
   \<and> serpapi_available both_keys \<and> google_available both_keys
   \<and> serpapi serpapi_down ''AI news'' = None
   \<and> fst (smart_search sample_digest both_keys serpapi_down 1000 empty_cache ''AI news'')
       = [SerpAPI, GoogleCustomSearch]
   \<and> fst (snd (smart_search sample_digest both_keys serpapi_down 1000 empty_cache ''AI news''))
       = Some ''google: AI news''
   \<and> GoogleCustomSearch
       \<in> set (fst (smart_search sample_digest both_keys serpapi_down 1000 empty_cache ''AI news''))
   \<and> hd (fst (smart_search sample_digest both_keys serpapi_down 1000 empty_cache ''AI news''))
       = SerpAPI
   \<and> serpapi all_up ''AI news'' = Some ''serpapi: AI news''
   \<and> fst (smart_search sample_digest both_keys all_up 1000 empty_cache ''AI news'') = [SerpAPI]
   \<and> fst (snd (smart_search sample_digest both_keys all_up 1000 empty_cache ''AI news''))
       = Some ''serpapi: AI news''
   \<and> \<not> serpapi_available google_keys_only \<and> google_available google_keys_only
   \<and> fst (smart_search sample_digest google_keys_only all_up 1000 empty_cache ''AI news'')
       = [GoogleCustomSearch]"
proof -
  have down: "serpapi serpapi_down ''AI news'' = None"
    "google serpapi_down ''AI news'' = Some ''google: AI news''"
    by (simp_all add: serpapi_down_def no_answer_def google_answer_def)
  have up: "serpapi all_up ''AI news'' = Some ''serpapi: AI news''"
    by (simp add: all_up_def serpapi_answer_def)
  from smart_search_failover [of sample_digest both_keys serpapi_down 1000 empty_cache
      "''AI news''" "''serpapi: AI news''"]
    sample_miss sample_settings_available down
  have a: "fst (smart_search sample_digest both_keys serpapi_down 1000 empty_cache ''AI news'')
       = [SerpAPI, GoogleCustomSearch]"
    "fst (snd (smart_search sample_digest both_keys serpapi_down 1000 empty_cache ''AI news''))
       = Some ''google: AI news''"
    by simp_all
  from smart_search_failover [of sample_digest both_keys all_up 1000 empty_cache
      "''AI news''" "''serpapi: AI news''"]
    sample_miss sample_settings_available up
  have b: "fst (smart_search sample_digest both_keys all_up 1000 empty_cache ''AI news'') = [SerpAPI]"
    "fst (snd (smart_search sample_digest both_keys all_up 1000 empty_cache ''AI news''))
       = Some ''serpapi: AI news''"
    by simp_all
  from smart_search_failover [of sample_digest google_keys_only all_up 1000 empty_cache
      "''AI news''" "''serpapi: AI news''"]
    sample_miss sample_settings_available
  have c: "fst (smart_search sample_digest google_keys_only all_up 1000 empty_cache ''AI news'')
       = [GoogleCustomSearch]"
    by simp
  from a b c sample_miss sample_settings_available down up show ?thesis by simp
qed

lemma cache_get_set: "cache_get tm k (cache_set now k v c) = (if tm < now + 3600 then Some v else None)"
  by (simp add: cache_get_def cache_set_def TTL_def)

lemma smart_search_cached:
  "cache_get tm (cache_key h q) c = Some r \<Longrightarrow> smart_search h cfg ps tm c q = ([], Some r, c)"
  by (simp add: smart_search_def)

lemma smart_search_miss:
  assumes "cache_get now (cache_key h q) c = None"
    and "smart_search h cfg ps now c q = (tried, Some r, c')"
  shows "c' = cache_set now (cache_key h q) r c"
  using assms by (auto simp: smart_search_def split: prod.splits option.splits)

text \<open>
  C7. When a query that is not in the cache is answered at the second \<open>now\<close>, its results
  are stored under the key derived from the digest of the query, with the expiry
  \<open>now + 3600\<close>; the same query at any second from \<open>now\<close> up to, and not including,
  \<open>now + 3600\<close> is served from the cache without querying a provider, and from
  \<open>now + 3600\<close> on the entry is not found.
\<close>

theorem search_cache_expiry:
  "cache_get now (cache_key h q) c = None \<and> smart_search h cfg ps now c q = (tried, Some r, c')
   \<longrightarrow> cache_key h q = ''search:query:'' @ take 16 (h (toLowerCase q))
       \<and> c' (cache_key h q) = Some (r, now + 3600)
       \<and> (\<forall>tm. now \<le> tm \<and> tm < now + 3600
              \<longrightarrow> smart_search h cfg' ps' tm c' q = ([], Some r, c'))
       \<and> (\<forall>tm. now + 3600 \<le> tm \<longrightarrow> cache_get tm (cache_key h q) c' = None)"
proof (intro impI conjI allI)
  assume a: "cache_get now (cache_key h q) c = None
             \<and> smart_search h cfg ps now c q = (tried, Some r, c')"
  then have c': "c' = cache_set now (cache_key h q) r c"
    using smart_search_miss by blast
  show "cache_key h q = ''search:query:'' @ take 16 (h (toLowerCase q))"
    by (simp add: cache_key_def)
  show "c' (cache_key h q) = Some (r, now + 3600)"
    by (simp add: c' cache_set_def TTL_def)
  show "smart_search h cfg' ps' tm c' q = ([], Some r, c')" if "now \<le> tm \<and> tm < now + 3600" for tm
  proof -
    from that have "cache_get tm (cache_key h q) c' = Some r"
      by (simp add: c' cache_get_set)
    then show ?thesis by (rule smart_search_cached)
  qed
  show "cache_get tm (cache_key h q) c' = None" if "now + 3600 \<le> tm" for tm
    using that by (simp add: c' cache_get_set)
qed

theorem search_cache_expiry_witness:
  "cache_get 1000 (cache_key sample_digest ''AI news'') empty_cache = None
   \<and> smart_search sample_digest both_keys serpapi_down 1000 empty_cache ''AI news''
       = ([SerpAPI, GoogleCustomSearch], Some ''google: AI news'', warm_cache)
   \<and> cache_key sample_digest ''AI news'' = ''search:query:0123456789abcdef''
   \<and> smart_search sample_digest both_keys all_down 4599 warm_cache ''AI news''
       = ([], Some ''google: AI news'', warm_cache)
   \<and> cache_get 4600 (cache_key sample_digest ''AI news'') warm_cache = None"
proof -
  have k: "cache_key sample_digest ''AI news'' = ''search:query:0123456789abcdef''"
    by (simp add: cache_key_def sample_digest_def)
  have g: "cache_get 1000 (cache_key sample_digest ''AI news'') empty_cache = None"
    by (simp add: cache_get_def empty_cache_def)
  have qp: "query_providers both_keys serpapi_down ''AI news''
       = ([SerpAPI, GoogleCustomSearch], Some ''google: AI news'')"
    by (simp add: query_providers_def serpapi_available_def google_available_def both_keys_def
        serpapi_down_def no_answer_def google_answer_def)
  have s: "smart_search sample_digest both_keys serpapi_down 1000 empty_cache ''AI news''
       = ([SerpAPI, GoogleCustomSearch], Some ''google: AI news'', warm_cache)"
    by (simp add: smart_search_def k cache_get_def empty_cache_def qp cache_set_def TTL_def
        warm_cache_def)
  from search_cache_expiry [of 1000 sample_digest "''AI news''" empty_cache both_keys serpapi_down
      "[SerpAPI, GoogleCustomSearch]" "''google: AI news''" warm_cache both_keys all_down] g s
  have "(\<forall>tm. 1000 \<le> tm \<and> tm < 1000 + 3600 \<longrightarrow>
            smart_search sample_digest both_keys all_down tm warm_cache ''AI news''
              = ([], Some ''google: AI news'', warm_cache))"
    and "(\<forall>tm. 1000 + 3600 \<le> tm \<longrightarrow> cache_get tm (cache_key sample_digest ''AI news'') warm_cache = None)"
    by blast+
  then have "smart_search sample_digest both_keys all_down 4599 warm_cache ''AI news''
              = ([], Some ''google: AI news'', warm_cache)"
    and "cache_get 4600 (cache_key sample_digest ''AI news'') warm_cache = None"
    by simp_all
  with g s k show ?thesis by simp
qed

text \<open>
  C5. When the mail configuration is absent (none of \<open>MAIL_USERNAME\<close>, \<open>MAIL_PASSWORD\<close>,
  \<open>MAIL_FROM\<close> is set), the email feature is disabled and \<open>/test-email\<close> answers 503; when
  it is present, the feature is enabled and the answer is that of the attempt to send, not
  the 503 of the missing configuration.
\<close>

theorem test_email_status:
  "(MAIL_USERNAME cfg = None \<and> MAIL_PASSWORD cfg = None \<and> MAIL_FROM cfg = None
      \<longrightarrow> \<not> email_enabled cfg \<and> status_code (test_email cfg sent) = 503)
   \<and> (MAIL_USERNAME cfg \<noteq> None \<and> MAIL_PASSWORD cfg \<noteq> None \<and> MAIL_FROM cfg \<noteq> None
      \<longrightarrow> email_enabled cfg \<and> cause (test_email cfg sent) \<noteq> Mail_not_configured
          \<and> status_code (test_email cfg sent) = sent)"
  by (simp add: email_enabled_def test_email_def)

theorem test_email_status_witness:
  "MAIL_USERNAME no_mail_settings = None \<and> MAIL_PASSWORD no_mail_settings = None
   \<and> MAIL_FROM no_mail_settings = None
   \<and> status_code (test_email no_mail_settings 200) = 503
   \<and> MAIL_USERNAME full_mail_settings \<noteq> None \<and> MAIL_PASSWORD full_mail_settings \<noteq> None
   \<and> MAIL_FROM full_mail_settings \<noteq> None
   \<and> status_code (test_email full_mail_settings 200) = 200"
proof -
  have n: "MAIL_USERNAME no_mail_settings = None \<and> MAIL_PASSWORD no_mail_settings = None
      \<and> MAIL_FROM no_mail_settings = None"
    by (simp add: no_mail_settings_def)
  have f: "MAIL_USERNAME full_mail_settings \<noteq> None \<and> MAIL_PASSWORD full_mail_settings \<noteq> None
      \<and> MAIL_FROM full_mail_settings \<noteq> None"
    by (simp add: full_mail_settings_def)
  from test_email_status [of no_mail_settings 200] test_email_status [of full_mail_settings 200] n f
  show ?thesis by simp
qed

end
